theory Spec2Isabelle
  imports Complex_Main "HOL-Library.Word"
begin

section \<open>Values decoded from JSON\<close>

text \<open>
  What \<^verbatim>\<open>encoding/json\<close> puts into an \<^verbatim>\<open>interface{}\<close>: nil, bool, float64, string, a slice
  or a map. A number is the finite \<^verbatim>\<open>float64\<close> the decoder produced, taken as the rational
  it denotes (so \<open>-0\<close> and \<open>0\<close> are one value, as they are for \<^verbatim>\<open>==\<close>).
\<close>

datatype json =
    JNull
  | JBool bool
  | JNumber rat
  | JString string
  | JArray "json list"
  | JObject "(string \<times> json) list"

section \<open>The in-memory token store and the Google OAuth service\<close>

text \<open>
  The credential is the \<^verbatim>\<open>oauth2.Token\<close> struct. Its exported fields are kept; an
  instant of time is an integer number of nanoseconds, so that \<^verbatim>\<open>Before\<close> is \<open><\<close> and
  \<^verbatim>\<open>Add\<close> is \<open>+\<close>.
\<close>

record Token =
  AccessToken :: string
  TokenType :: string
  RefreshToken :: string
  Expiry :: int

text \<open>
  Effects that leave the process or change the store are recorded in a log, oldest first:
  a write to the token store, the provider's code exchange, a call of the (possibly
  refreshing) token source, a refresh request sent to the provider, and a YouTube Data
  API request. Output of the \<^verbatim>\<open>log\<close>
  package is not recorded.
\<close>

datatype api_request =
    SearchList "string list" string string "64 word" "string option"
  | VideosList "string list" string
  | CommentThreadsList "string list" string string "64 word"
  | CommentsInsert "string list" string string
  | PlaylistItemsInsert "string list" string string string

text \<open>A \<^verbatim>\<open>youtube.Service\<close> is known by the token its token source holds.\<close>

datatype youtube_Service = Service nat

datatype effect =
    StoreWrite "nat option"
  | ProviderExchange string
  | TokenSourceToken nat
  | RefreshExchange string
  | ApiDo youtube_Service api_request

text \<open>
  The token store holds a pointer \<^verbatim>\<open>*oauth2.Token\<close> (or nil), and \<^verbatim>\<open>GetToken\<close> hands out
  a pointer to a copy, so tokens live in a heap of cells addressed by natural numbers.
  Addresses below \<open>next_free\<close> are allocated. The reader-writer mutex is not modelled:
  every method runs as one step.
\<close>

record world =
  heap :: "nat \<Rightarrow> Token"
  next_free :: nat
  token :: "nat option"
  effects :: "effect list"

definition new_Token :: "Token \<Rightarrow> world \<Rightarrow> nat \<times> world" where
  "new_Token v w =
     (next_free w, w\<lparr>heap := (heap w)(next_free w := v), next_free := Suc (next_free w)\<rparr>)"

definition GetToken :: "world \<Rightarrow> nat option \<times> world" where
  "GetToken w =
     (case token w of
        None \<Rightarrow> (None, w)
      | Some p \<Rightarrow> (let (tokenCopy, w') = new_Token (heap w p) w in (Some tokenCopy, w')))"

definition SetToken :: "nat option \<Rightarrow> world \<Rightarrow> world" where
  "SetToken t w = w\<lparr>token := t, effects := effects w @ [StoreWrite t]\<rparr>"

text \<open>The credential a pointer stands for, and the credential the store holds.\<close>

definition deref :: "world \<Rightarrow> nat option \<Rightarrow> Token option" where
  "deref w p = map_option (heap w) p"

definition stored :: "world \<Rightarrow> Token option" where
  "stored w = deref w (token w)"

text \<open>A caller writing through a pointer it holds: \<^verbatim>\<open>*p = v\<close>.\<close>

definition assign :: "nat \<Rightarrow> Token \<Rightarrow> world \<Rightarrow> world" where
  "assign p v w = w\<lparr>heap := (heap w)(p := v)\<rparr>"

text \<open>Go pointers refer to allocated objects only.\<close>

definition allocated :: "world \<Rightarrow> nat option \<Rightarrow> bool" where
  "allocated w p = (case p of None \<Rightarrow> True | Some a \<Rightarrow> a < next_free w)"

text \<open>
  A caller that reads the token repeatedly and overwrites every copy it was given with a
  value of its choosing; the result lists what each \<^verbatim>\<open>GetToken\<close> returned.
\<close>

fun get_then_overwrite :: "Token list \<Rightarrow> world \<Rightarrow> Token option list" where
  "get_then_overwrite [] w = []"
| "get_then_overwrite (v # vs) w =
     (let (r, w') = GetToken w
      in deref w' r #
         get_then_overwrite vs (case r of None \<Rightarrow> w' | Some q \<Rightarrow> assign q v w'))"

subsection \<open>GoogleOAuthService\<close>

text \<open>
  The calls into the \<^verbatim>\<open>oauth2\<close> and \<^verbatim>\<open>youtube\<close> libraries are inputs of the model: each
  function takes the outcome of the library call it makes (\<open>Inl\<close> the error text). A token
  that a library returns is placed in a fresh cell; where the library hands back the very
  pointer it was given, that cell has the contents of the copy, and since nothing writes
  through either pointer the two cannot be told apart. A conversion \<^verbatim>\<open>int64(x)\<close> of a
  \<^verbatim>\<open>float64\<close> outside the range of \<^verbatim>\<open>int64\<close> is left to the implementation by the
  language, so its result is an input as well.
\<close>

record env =
  token_source_Token :: "string + Token"
  youtube_NewService :: "string option"
  call_Do :: "string + json"
  float64_out_of_range :: "rat \<Rightarrow> 64 word"

definition ExchangeCodeForToken :: "string \<Rightarrow> string + Token \<Rightarrow> world \<Rightarrow> string option \<times> world" where
  "ExchangeCodeForToken code exchange w =
     (let w1 = w\<lparr>effects := effects w @ [ProviderExchange code]\<rparr>
      in case exchange of
           Inl err \<Rightarrow> (Some (''failed to exchange code for token: '' @ err), w1)
         | Inr tok \<Rightarrow> (let (p, w2) = new_Token tok w1 in (None, SetToken (Some p) w2)))"

definition GetYouTubeService :: "env \<Rightarrow> world \<Rightarrow> (string + youtube_Service) \<times> world" where
  "GetYouTubeService e w =
     (case GetToken w of
        (None, w1) \<Rightarrow> (Inl ''not authenticated with Google; please visit /oauth/authorize'', w1)
      | (Some t, w1) \<Rightarrow>
          (let w2 = w1\<lparr>effects := effects w1 @ [TokenSourceToken t]\<rparr>
           in case token_source_Token e of
                Inl err \<Rightarrow> (Inl (''failed to retrieve or refresh token: '' @ err), w2)
              | Inr tok \<Rightarrow>
                  (let (newToken, w3) = new_Token tok w2;
                       w4 = (if AccessToken (heap w3 newToken) \<noteq> AccessToken (heap w3 t)
                             then SetToken (Some newToken) w3 else w3)
                   in case youtube_NewService e of
                        Some err \<Rightarrow> (Inl (''failed to create YouTube service: '' @ err), w4)
                      | None \<Rightarrow> (Inr (Service newToken), w4))))"

definition IsAuthenticated :: "world \<Rightarrow> bool \<times> world" where
  "IsAuthenticated w = (let (t, w') = GetToken w in (t \<noteq> None, w'))"

text \<open>
  The background refresher. \<^verbatim>\<open>time.Minute\<close> is a number of nanoseconds. Each pass of
  the loop selects either the cancellation of the context or a tick; a tick comes with
  the clock reading, the library's \<^verbatim>\<open>Valid\<close> predicate at that moment and the answer the
  provider would give to a refresh request. The loop returns at the cancellation; the
  result of \<open>TokenRefresher\<close> says whether it has returned, and is \<open>False\<close> when the events
  run out and the loop is still waiting in its \<^verbatim>\<open>select\<close>. When the ticks arrive is up to
  the ticker, which is created with the period below.
\<close>

definition Minute :: int where
  "Minute = 60 * 1000000000"

definition ticker_period :: int where
  "ticker_period = 15 * Minute"

record tick =
  time_Now :: int
  Valid :: "Token \<Rightarrow> bool"
  provider_refresh :: "string + Token"

text \<open>
  What the refresher does depends on whether the provider is contacted, so for it the
  token source is not taken whole as in \<open>GetYouTubeService\<close> but unfolded one level, after
  the documentation of \<^verbatim>\<open>oauth2.Config.TokenSource\<close> (the source returns the token it was
  given until that token expires, and refreshes it only then) and the comment in
  \<^verbatim>\<open>GetYouTubeService\<close> (the token source refreshes the token if it is expired). A token
  that is \<^verbatim>\<open>Valid\<close> is handed back as it is, the same pointer, and nothing is sent. For
  one that is not, a refresh request with its refresh token goes to the provider, unless
  there is no refresh token, which is an error at once. \<open>RefreshExchange\<close> logs the request.
\<close>

definition TokenSource_Token :: "tick \<Rightarrow> nat \<Rightarrow> world \<Rightarrow> (string + nat) \<times> world" where
  "TokenSource_Token k t w =
     (let w1 = w\<lparr>effects := effects w @ [TokenSourceToken t]\<rparr>
      in if Valid k (heap w1 t) then (Inr t, w1)
         else if RefreshToken (heap w1 t) = []
           then (Inl ''oauth2: token expired and refresh token is not set'', w1)
         else
           (let w2 = w1\<lparr>effects := effects w1 @ [RefreshExchange (RefreshToken (heap w1 t))]\<rparr>
            in case provider_refresh k of
                 Inl err \<Rightarrow> (Inl err, w2)
               | Inr tok \<Rightarrow> (let (p, w3) = new_Token tok w2 in (Inr p, w3))))"

definition refresher_tick :: "tick \<Rightarrow> world \<Rightarrow> world" where
  "refresher_tick k w =
     (case GetToken w of
        (None, w1) \<Rightarrow> w1
      | (Some t, w1) \<Rightarrow>
          (if \<not> Valid k (heap w1 t) \<or> Expiry (heap w1 t) < time_Now k + 30 * Minute
           then (case TokenSource_Token k t w1 of
                   (Inl err, w2) \<Rightarrow> SetToken None w2
                 | (Inr newToken, w2) \<Rightarrow> SetToken (Some newToken) w2)
           else w1))"

datatype select_case = ctx_Done | ticker_C tick

fun TokenRefresher :: "select_case list \<Rightarrow> world \<Rightarrow> bool \<times> world" where
  "TokenRefresher [] w = (False, w)"
| "TokenRefresher (ctx_Done # rest) w = (True, w)"
| "TokenRefresher (ticker_C k # rest) w = TokenRefresher rest (refresher_tick k w)"

section \<open>The YouTube service\<close>

definition SearchVideos ::
  "env \<Rightarrow> string \<Rightarrow> string \<Rightarrow> 64 word \<Rightarrow> world \<Rightarrow> (string + json) \<times> world" where
  "SearchVideos e query channelID limit w =
     (case GetYouTubeService e w of
        (Inl err, w1) \<Rightarrow> (Inl (''failed to get YouTube service: '' @ err), w1)
      | (Inr youtubeService, w1) \<Rightarrow>
          (let call = SearchList [''id'', ''snippet''] query ''video'' limit
                        (if channelID \<noteq> [] then Some channelID else None);
               w2 = w1\<lparr>effects := effects w1 @ [ApiDo youtubeService call]\<rparr>
           in case call_Do e of
                Inl err \<Rightarrow> (Inl (''failed to search videos: '' @ err), w2)
              | Inr response \<Rightarrow> (Inr response, w2)))"

definition GetVideoMetadata :: "env \<Rightarrow> string \<Rightarrow> world \<Rightarrow> (string + json) \<times> world" where
  "GetVideoMetadata e videoID w =
     (case GetYouTubeService e w of
        (Inl err, w1) \<Rightarrow> (Inl (''failed to get YouTube service: '' @ err), w1)
      | (Inr youtubeService, w1) \<Rightarrow>
          (let call = VideosList [''snippet'', ''statistics'', ''contentDetails''] videoID;
               w2 = w1\<lparr>effects := effects w1 @ [ApiDo youtubeService call]\<rparr>
           in case call_Do e of
                Inl err \<Rightarrow> (Inl (''failed to get video metadata: '' @ err), w2)
              | Inr response \<Rightarrow> (Inr response, w2)))"

definition GetVideoComments ::
  "env \<Rightarrow> string \<Rightarrow> string \<Rightarrow> 64 word \<Rightarrow> world \<Rightarrow> (string + json) \<times> world" where
  "GetVideoComments e videoID sortBy limit w =
     (case GetYouTubeService e w of
        (Inl err, w1) \<Rightarrow> (Inl (''failed to get YouTube service: '' @ err), w1)
      | (Inr youtubeService, w1) \<Rightarrow>
          (let call = CommentThreadsList [''snippet'', ''replies''] videoID sortBy limit;
               w2 = w1\<lparr>effects := effects w1 @ [ApiDo youtubeService call]\<rparr>
           in case call_Do e of
                Inl err \<Rightarrow> (Inl (''failed to get video comments: '' @ err), w2)
              | Inr response \<Rightarrow> (Inr response, w2)))"

definition ReplyToComment :: "env \<Rightarrow> string \<Rightarrow> string \<Rightarrow> world \<Rightarrow> (string + json) \<times> world" where
  "ReplyToComment e parentID text w =
     (case GetYouTubeService e w of
        (Inl err, w1) \<Rightarrow> (Inl (''failed to get YouTube service: '' @ err), w1)
      | (Inr youtubeService, w1) \<Rightarrow>
          (let call = CommentsInsert [''snippet''] parentID text;
               w2 = w1\<lparr>effects := effects w1 @ [ApiDo youtubeService call]\<rparr>
           in case call_Do e of
                Inl err \<Rightarrow> (Inl (''failed to post comment: '' @ err), w2)
              | Inr response \<Rightarrow> (Inr response, w2)))"

definition AddVideoToPlaylist ::
  "env \<Rightarrow> string \<Rightarrow> string \<Rightarrow> world \<Rightarrow> (string + json) \<times> world" where
  "AddVideoToPlaylist e playlistID videoID w =
     (case GetYouTubeService e w of
        (Inl err, w1) \<Rightarrow> (Inl (''failed to get YouTube service: '' @ err), w1)
      | (Inr youtubeService, w1) \<Rightarrow>
          (let call = PlaylistItemsInsert [''snippet''] playlistID ''youtube#video'' videoID;
               w2 = w1\<lparr>effects := effects w1 @ [ApiDo youtubeService call]\<rparr>
           in case call_Do e of
                Inl err \<Rightarrow> (Inl (''failed to add video to playlist: '' @ err), w2)
              | Inr response \<Rightarrow> (Inr response, w2)))"

section \<open>The MCP handler\<close>

record MCPRequest =
  req_JSONRPC :: string
  req_ID :: json
  Method :: string
  Params :: json

record MCPError =
  Code :: int
  Message :: string
  Data :: json

record Tool =
  tool_Name :: string
  Description :: string
  InputSchema :: json

record ToolsCallParams =
  Name :: string
  Arguments :: "string \<rightharpoonup> json"

record ContentItem =
  Type :: string
  Text :: string
  JSON :: json

record ToolsCallResult =
  Content :: "ContentItem list"
  IsError :: bool

record InitializeResult =
  ProtocolVersion :: string
  Capabilities :: json
  ServerInfo :: "(string \<times> string) list"

text \<open>The \<^verbatim>\<open>interface{}\<close> in the \<^verbatim>\<open>Result\<close> field holds one of three structs.\<close>

datatype result =
    Initialize InitializeResult
  | ToolsList "Tool list"
  | ToolsCall ToolsCallResult

record MCPResponse =
  JSONRPC :: string
  ID :: json
  Result :: "result option"
  Error :: "MCPError option"

text \<open>
  The handler writes one response to the \<^verbatim>\<open>http.ResponseWriter\<close>; the model returns it.
\<close>

definition sendSuccessResponse :: "json \<Rightarrow> result \<Rightarrow> MCPResponse" where
  "sendSuccessResponse id' result =
     \<lparr>JSONRPC = ''2.0'', ID = id', Result = Some result, Error = None\<rparr>"

definition sendErrorResponse :: "json \<Rightarrow> int \<Rightarrow> string \<Rightarrow> json \<Rightarrow> MCPResponse" where
  "sendErrorResponse id' code message data =
     \<lparr>JSONRPC = ''2.0'', ID = id', Result = None,
      Error = Some \<lparr>Code = code, Message = message, Data = data\<rparr>\<rparr>"

definition sendToolError :: "json \<Rightarrow> string \<Rightarrow> MCPResponse" where
  "sendToolError id' message =
     sendSuccessResponse id'
       (ToolsCall \<lparr>Content = [\<lparr>Type = ''text'', Text = message, JSON = JNull\<rparr>], IsError = True\<rparr>)"

definition sendToolResult :: "json \<Rightarrow> json \<Rightarrow> MCPResponse" where
  "sendToolResult id' result =
     sendSuccessResponse id'
       (ToolsCall \<lparr>Content = [\<lparr>Type = ''json'', Text = [], JSON = result\<rparr>], IsError = False\<rparr>)"

text \<open>
  The comma-ok type assertions on an argument: \<^verbatim>\<open>v, _ := m[k].(string)\<close> and
  \<^verbatim>\<open>v, ok := m[k].(float64)\<close>. A missing key reads as nil, and a failed assertion gives
  the zero value.
\<close>

definition string_of :: "json option \<Rightarrow> string" where
  "string_of v = (case v of Some (JString s) \<Rightarrow> s | _ \<Rightarrow> [])"

definition float64_of :: "json option \<Rightarrow> rat \<times> bool" where
  "float64_of v = (case v of Some (JNumber x) \<Rightarrow> (x, True) | _ \<Rightarrow> (0, False))"

text \<open>\<^verbatim>\<open>int64(x)\<close> truncates towards zero.\<close>

definition int64 :: "env \<Rightarrow> rat \<Rightarrow> 64 word" where
  "int64 e x =
     (let n = (if 0 \<le> x then \<lfloor>x\<rfloor> else \<lceil>x\<rceil>)
      in if - (2 ^ 63) \<le> n \<and> n < 2 ^ 63 then word_of_int n else float64_out_of_range e x)"

definition handleInitialize :: "MCPRequest \<Rightarrow> MCPResponse" where
  "handleInitialize req =
     sendSuccessResponse (req_ID req)
       (Initialize \<lparr>ProtocolVersion = ''2025-06-18'',
                    Capabilities = JObject [(''tools'', JObject [])],
                    ServerInfo = [(''name'', ''youtube-toolkit-server''), (''version'', ''2.0.0'')]\<rparr>)"

definition tools :: "Tool list" where
  "tools =
     [\<lparr>tool_Name = ''get_video_metadata'',
       Description = ''Gets detailed information for a specific video.'',
       InputSchema = JObject
         [(''type'', JString ''object''),
          (''properties'', JObject
             [(''video_id'', JObject [(''type'', JString ''string''),
                                      (''description'', JString ''The ID of the YouTube video.'')])]),
          (''required'', JArray [JString ''video_id''])]\<rparr>,
      \<lparr>tool_Name = ''search_videos'',
       Description = ''Searches for YouTube videos.'',
       InputSchema = JObject
         [(''type'', JString ''object''),
          (''properties'', JObject
             [(''query'', JObject [(''type'', JString ''string''),
                                   (''description'', JString ''The search term.'')]),
              (''channel_id'', JObject
                 [(''type'', JString ''string''),
                  (''description'', JString ''Optional: Restricts search to a specific channel.'')]),
              (''limit'', JObject
                 [(''type'', JString ''integer''),
                  (''description'', JString ''Optional: Max number of results (default: 10).'')])]),
          (''required'', JArray [JString ''query''])]\<rparr>,
      \<lparr>tool_Name = ''get_video_comments'',
       Description = ''Fetches top-level comment threads for a video.'',
       InputSchema = JObject
         [(''type'', JString ''object''),
          (''properties'', JObject
             [(''video_id'', JObject [(''type'', JString ''string''),
                                      (''description'', JString ''The ID of the YouTube video.'')]),
              (''sort_by'', JObject
                 [(''type'', JString ''string''),
                  (''description'', JString ''Optional: Sort order (default: top).'')]),
              (''limit'', JObject
                 [(''type'', JString ''integer''),
                  (''description'', JString ''Optional: Max number of results (default: 20).'')])]),
          (''required'', JArray [JString ''video_id''])]\<rparr>]"

definition handleToolsList :: "MCPRequest \<Rightarrow> MCPResponse" where
  "handleToolsList req = sendSuccessResponse (req_ID req) (ToolsList tools)"

definition handleGetVideoMetadata ::
  "env \<Rightarrow> json \<Rightarrow> ToolsCallParams \<Rightarrow> world \<Rightarrow> MCPResponse \<times> world" where
  "handleGetVideoMetadata e id' params w =
     (let videoID = string_of (Arguments params ''video_id'')
      in if videoID = [] then (sendToolError id' ''video_id is required'', w)
         else case GetVideoMetadata e videoID w of
                (Inl err, w') \<Rightarrow> (sendToolError id' (''API Error: '' @ err), w')
              | (Inr metadata, w') \<Rightarrow> (sendToolResult id' metadata, w'))"

definition handleSearchVideos ::
  "env \<Rightarrow> json \<Rightarrow> ToolsCallParams \<Rightarrow> world \<Rightarrow> MCPResponse \<times> world" where
  "handleSearchVideos e id' params w =
     (let query = string_of (Arguments params ''query'')
      in if query = [] then (sendToolError id' ''query is required'', w)
         else
           (let channelID = string_of (Arguments params ''channel_id'');
                (limit, ok) = float64_of (Arguments params ''limit'');
                limit = (if \<not> ok \<or> limit = 0 then 10 else limit)
            in case SearchVideos e query channelID (int64 e limit) w of
                 (Inl err, w') \<Rightarrow> (sendToolError id' (''API Error: '' @ err), w')
               | (Inr results, w') \<Rightarrow> (sendToolResult id' results, w')))"

definition handleGetVideoComments ::
  "env \<Rightarrow> json \<Rightarrow> ToolsCallParams \<Rightarrow> world \<Rightarrow> MCPResponse \<times> world" where
  "handleGetVideoComments e id' params w =
     (let videoID = string_of (Arguments params ''video_id'')
      in if videoID = [] then (sendToolError id' ''video_id is required'', w)
         else
           (let sortBy = string_of (Arguments params ''sort_by'');
                sortBy = (if sortBy = [] then ''top'' else sortBy);
                (limit, ok) = float64_of (Arguments params ''limit'');
                limit = (if \<not> ok \<or> limit = 0 then 20 else limit)
            in case GetVideoComments e videoID sortBy (int64 e limit) w of
                 (Inl err, w') \<Rightarrow> (sendToolError id' (''API Error: '' @ err), w')
               | (Inr comments, w') \<Rightarrow> (sendToolResult id' comments, w')))"

text \<open>
  \<^verbatim>\<open>decodeParams\<close> sends \<^verbatim>\<open>req.Params\<close> through \<^verbatim>\<open>json.Marshal\<close> and \<^verbatim>\<open>json.Unmarshal\<close>;
  the outcome of that round trip is an input of \<^verbatim>\<open>handleToolsCall\<close>, \<open>Inl\<close> the error
  text. In the same way \<^verbatim>\<open>HandleMCP\<close> receives what the decoder made of the request body.
\<close>

definition handleToolsCall ::
  "env \<Rightarrow> MCPRequest \<Rightarrow> string + ToolsCallParams \<Rightarrow> world \<Rightarrow> MCPResponse \<times> world" where
  "handleToolsCall e req decodeParams w =
     (case decodeParams of
        Inl err \<Rightarrow> (sendErrorResponse (req_ID req) (- 32602) ''Invalid params'' (JString err), w)
      | Inr toolParams \<Rightarrow>
          if Name toolParams = ''get_video_metadata''
            then handleGetVideoMetadata e (req_ID req) toolParams w
          else if Name toolParams = ''search_videos''
            then handleSearchVideos e (req_ID req) toolParams w
          else if Name toolParams = ''get_video_comments''
            then handleGetVideoComments e (req_ID req) toolParams w
          else (sendErrorResponse (req_ID req) (- 32601) ''Unknown tool'' JNull, w))"

definition HandleMCP ::
  "env \<Rightarrow> string option \<Rightarrow> MCPRequest \<Rightarrow> string + ToolsCallParams \<Rightarrow> world
     \<Rightarrow> MCPResponse \<times> world" where
  "HandleMCP e decode_err req decodeParams w =
     (case decode_err of
        Some err \<Rightarrow> (sendErrorResponse (req_ID req) (- 32700) ''Parse error'' JNull, w)
      | None \<Rightarrow>
          if Method req = ''initialize'' then (handleInitialize req, w)
          else if Method req = ''tools/list'' then (handleToolsList req, w)
          else if Method req = ''tools/call'' then handleToolsCall e req decodeParams w
          else (sendErrorResponse (req_ID req) (- 32601) ''Method not found'' JNull, w))"

section \<open>Sample inputs\<close>

definition token_a :: Token where
  "token_a = \<lparr>AccessToken = ''ya29.a'', TokenType = ''Bearer'', RefreshToken = ''1//r'',
              Expiry = 1000\<rparr>"

definition token_b :: Token where
  "token_b = \<lparr>AccessToken = ''ya29.b'', TokenType = ''Bearer'', RefreshToken = ''1//r'',
              Expiry = 5000\<rparr>"

text \<open>A store that holds nothing, one that holds \<open>token_a\<close>, and one with a second token
  allocated beside the stored one.\<close>

definition world_empty :: world where
  "world_empty = \<lparr>heap = (\<lambda>a. token_a), next_free = 0, token = None, effects = []\<rparr>"

definition world_a :: world where
  "world_a = \<lparr>heap = (\<lambda>a. token_a), next_free = 1, token = Some 0, effects = []\<rparr>"

definition world_ab :: world where
  "world_ab = \<lparr>heap = (\<lambda>a. if a = 1 then token_b else token_a), next_free = 2,
               token = Some 0, effects = []\<rparr>"

text \<open>Libraries that succeed (the token source yields \<open>token_b\<close>), and the same with a
  failing \<^verbatim>\<open>youtube.NewService\<close>.\<close>

definition env_ok :: env where
  "env_ok = \<lparr>token_source_Token = Inr token_b, youtube_NewService = None,
             call_Do = Inr JNull, float64_out_of_range = (\<lambda>x. 0)\<rparr>"

definition env_no_client :: env where
  "env_no_client = env_ok\<lparr>youtube_NewService := Some ''no transport''\<rparr>"

text \<open>
  For the refresher: a token that expires at minute 1020, the store that holds it, and
  the library's \<^verbatim>\<open>Valid\<close> for a token with an expiry (a non-empty access token, and the
  current time not past the expiry less ten seconds). One tick comes at minute 1000, when
  the token has 20 minutes left; another at minute 2000, when it has expired and the
  provider refuses the refresh.
\<close>

definition token_soon :: Token where
  "token_soon = \<lparr>AccessToken = ''ya29.c'', TokenType = ''Bearer'', RefreshToken = ''1//r'',
                 Expiry = 1020 * Minute\<rparr>"

definition world_soon :: world where
  "world_soon = \<lparr>heap = (\<lambda>a. token_soon), next_free = 1, token = Some 0, effects = []\<rparr>"

definition Valid_at :: "int \<Rightarrow> Token \<Rightarrow> bool" where
  "Valid_at now t = (AccessToken t \<noteq> [] \<and> \<not> Expiry t - 10 * 1000000000 < now)"

definition tick_20_minutes_left :: tick where
  "tick_20_minutes_left =
     \<lparr>time_Now = 1000 * Minute, Valid = Valid_at (1000 * Minute), provider_refresh = Inr token_b\<rparr>"

definition tick_refused :: tick where
  "tick_refused =
     \<lparr>time_Now = 2000 * Minute, Valid = Valid_at (2000 * Minute),
      provider_refresh = Inl ''invalid_grant''\<rparr>"

definition comments_limit_five :: "string \<rightharpoonup> json" where
  "comments_limit_five = [''video_id'' \<mapsto> JString ''kYB8IZa5AuE'', ''limit'' \<mapsto> JNumber 5]"

definition comments_sort_time :: "string \<rightharpoonup> json" where
  "comments_sort_time = [''video_id'' \<mapsto> JString ''kYB8IZa5AuE'', ''sort_by'' \<mapsto> JString ''time'']"

definition request_1 :: MCPRequest where
  "request_1 = \<lparr>req_JSONRPC = ''2.0'', req_ID = JNumber 1, Method = ''tools/call'',
                Params = JNull\<rparr>"

definition no_arguments :: "string \<rightharpoonup> json" where
  "no_arguments = Map.empty"

definition numeric_query :: "string \<rightharpoonup> json" where
  "numeric_query = [''query'' \<mapsto> JNumber 5]"

definition comments_limit_zero :: "string \<rightharpoonup> json" where
  "comments_limit_zero = [''video_id'' \<mapsto> JString ''kYB8IZa5AuE'', ''limit'' \<mapsto> JNumber 0]"

definition reply_arguments :: "string \<rightharpoonup> json" where
  "reply_arguments = [''comment_id'' \<mapsto> JString ''c1'', ''text'' \<mapsto> JString ''Thanks'']"

section \<open>Properties of the token store\<close>

lemma GetToken_keeps:
  "allocated w (token w) \<Longrightarrow> GetToken w = (r, w') \<Longrightarrow>
     deref w' r = stored w \<and> stored w' = stored w \<and> token w' = token w \<and>
     allocated w' (token w') \<and> effects w' = effects w \<and>
     (\<forall>q v. r = Some q \<longrightarrow>
        stored (assign q v w') = stored w \<and> token (assign q v w') = token w \<and>
        allocated (assign q v w') (token (assign q v w')) \<and> Some q \<noteq> token w)"
  by (auto simp: GetToken_def new_Token_def deref_def stored_def assign_def allocated_def Let_def
      split: option.splits)

lemma get_then_overwrite_stored:
  "allocated w (token w) \<Longrightarrow> get_then_overwrite vs w = replicate (length vs) (stored w)"
proof (induction vs arbitrary: w)
  case Nil
  then show ?case by simp
next
  case (Cons v vs)
  obtain r w' where g: "GetToken w = (r, w')"
    by (cases "GetToken w")
  note k = GetToken_keeps [OF Cons.prems g]
  have s': "stored w' = stored w" and a': "allocated w' (token w')" and d: "deref w' r = stored w"
    using k by blast+
  show ?case
  proof (cases r)
    case None
    from Cons.IH [OF a'] s'
    have "get_then_overwrite vs w' = replicate (length vs) (stored w)"
      by simp
    with g d None show ?thesis by simp
  next
    case (Some q)
    from k Some have s2: "stored (assign q v w') = stored w"
      and a2: "allocated (assign q v w') (token (assign q v w'))"
      by blast+
    from Cons.IH [OF a2] s2
    have "get_then_overwrite vs (assign q v w') = replicate (length vs) (stored w)"
      by simp
    with g d Some show ?thesis by simp
  qed
qed

text \<open>
  Claim C1. Let \<open>c\<close> be a pointer to an allocated token, or nil. After \<^verbatim>\<open>SetToken(c)\<close>,
  \<^verbatim>\<open>GetToken()\<close> returns a pointer whose target equals the target of \<open>c\<close> (nil for nil),
  and that pointer is not \<open>c\<close> itself. However often the caller then reads the token and
  overwrites the copy it received with any values \<open>vs\<close>, every read still returns the
  value of \<open>c\<close>.
\<close>

theorem GetToken_after_SetToken_is_copy:
  "allocated w c \<Longrightarrow>
     deref (snd (GetToken (SetToken c w))) (fst (GetToken (SetToken c w))) = deref w c \<and>
     (c \<noteq> None \<longrightarrow> fst (GetToken (SetToken c w)) \<noteq> c) \<and>
     get_then_overwrite vs (SetToken c w) = replicate (length vs) (deref w c)"
proof -
  assume a: "allocated w c"
  have al: "allocated (SetToken c w) (token (SetToken c w))"
    using a by (simp add: SetToken_def allocated_def split: option.splits)
  have st: "stored (SetToken c w) = deref w c"
    by (simp add: SetToken_def stored_def deref_def)
  obtain r w' where g: "GetToken (SetToken c w) = (r, w')"
    by (cases "GetToken (SetToken c w)")
  from GetToken_keeps [OF al g] st g
  have 1: "deref (snd (GetToken (SetToken c w))) (fst (GetToken (SetToken c w))) = deref w c"
    by simp
  have 2: "c \<noteq> None \<longrightarrow> fst (GetToken (SetToken c w)) \<noteq> c"
    using a
    by (auto simp: GetToken_def SetToken_def new_Token_def allocated_def split: option.splits)
  from get_then_overwrite_stored [OF al] st
  have 3: "get_then_overwrite vs (SetToken c w) = replicate (length vs) (deref w c)"
    by simp
  from 1 2 3 show ?thesis by blast
qed

text \<open>
  Witness for C1: the store holds \<open>token_a\<close>, the caller sets the pointer to \<open>token_b\<close>
  and then twice overwrites the copy it reads with \<open>token_a\<close>.
\<close>

theorem GetToken_after_SetToken_is_copy_witness:
  "allocated world_ab (Some 1) \<and>
   fst (GetToken (SetToken (Some 1) world_ab)) = Some 2 \<and>
   get_then_overwrite [token_a, token_a] (SetToken (Some 1) world_ab) =
     [Some token_b, Some token_b]"
proof -
  have h: "allocated world_ab (Some 1)"
    by (simp add: allocated_def world_ab_def)
  have p: "fst (GetToken (SetToken (Some 1) world_ab)) = Some 2"
    by (simp add: GetToken_def SetToken_def new_Token_def world_ab_def)
  from GetToken_after_SetToken_is_copy [OF h, of "[token_a, token_a]"] h p
  show ?thesis
    by (simp add: deref_def world_ab_def)
qed

section \<open>Properties of the OAuth service\<close>

text \<open>
  Claim C2. \<^verbatim>\<open>ExchangeCodeForToken\<close> writes to the token store exactly when the
  provider's exchange succeeds. On failure it returns the wrapped error, the only effect
  is the exchange itself, and the stored pointer and the heap are as before. On success
  it returns nil, the one write stores the new credential, and \<^verbatim>\<open>IsAuthenticated\<close> is
  true afterwards.
\<close>

theorem ExchangeCodeForToken_writes_iff_success:
  "(let (r, w') = ExchangeCodeForToken code exchange w
    in effects w' = effects w @ ProviderExchange code #
                      (case exchange of Inl err \<Rightarrow> [] | Inr tok \<Rightarrow> [StoreWrite (token w')]) \<and>
       (case exchange of
          Inl err \<Rightarrow> r = Some (''failed to exchange code for token: '' @ err) \<and>
                     token w' = token w \<and> heap w' = heap w \<and> next_free w' = next_free w
        | Inr tok \<Rightarrow> r = None \<and> stored w' = Some tok \<and> fst (IsAuthenticated w')))"
  by (simp add: ExchangeCodeForToken_def new_Token_def SetToken_def stored_def deref_def
      IsAuthenticated_def GetToken_def Let_def split: sum.splits prod.splits)

text \<open>Witness for C2: a failing exchange against a store that holds \<open>token_a\<close>.\<close>

theorem ExchangeCodeForToken_writes_iff_success_witness:
  "fst (ExchangeCodeForToken ''4/0Ab'' (Inl ''invalid_grant'') world_a) =
     Some ''failed to exchange code for token: invalid_grant'' \<and>
   effects (snd (ExchangeCodeForToken ''4/0Ab'' (Inl ''invalid_grant'') world_a)) =
     [ProviderExchange ''4/0Ab''] \<and>
   token (snd (ExchangeCodeForToken ''4/0Ab'' (Inl ''invalid_grant'') world_a)) = Some 0"
  using ExchangeCodeForToken_writes_iff_success [of "''4/0Ab''" "Inl ''invalid_grant''" world_a]
  by (simp add: world_a_def split: prod.splits)

text \<open>
  Claim C10. Whatever the store held before, after a successful exchange it holds exactly
  the exchanged credential, and that is what \<^verbatim>\<open>GetToken\<close> then returns; of two successful
  exchanges in a row the later one is the one stored.
\<close>

theorem ExchangeCodeForToken_replaces_stored:
  "stored (snd (ExchangeCodeForToken code (Inr tok) w)) = Some tok \<and>
   (let w' = snd (ExchangeCodeForToken code (Inr tok) w)
    in deref (snd (GetToken w')) (fst (GetToken w')) = Some tok) \<and>
   stored (snd (ExchangeCodeForToken code2 (Inr tok2)
                  (snd (ExchangeCodeForToken code (Inr tok) w)))) = Some tok2"
  by (simp add: ExchangeCodeForToken_def new_Token_def SetToken_def stored_def deref_def
      GetToken_def Let_def split: sum.splits prod.splits)

text \<open>Witness for C10: \<open>token_b\<close> replaces the stored \<open>token_a\<close>.\<close>

theorem ExchangeCodeForToken_replaces_stored_witness:
  "stored world_a = Some token_a \<and>
   stored (snd (ExchangeCodeForToken ''4/0Ab'' (Inr token_b) world_a)) = Some token_b"
  using ExchangeCodeForToken_replaces_stored [of "''4/0Ab''" token_b world_a]
  by (simp add: stored_def deref_def world_a_def)

text \<open>
  Claim C3. When the store holds no credential, \<^verbatim>\<open>GetYouTubeService\<close> fails with the
  not-authenticated error and leaves everything as it was: the token source is not
  called and the store is not written. \<^verbatim>\<open>IsAuthenticated\<close> is true exactly when the
  store holds a credential.
\<close>

theorem GetYouTubeService_not_authenticated:
  "(token w = None \<longrightarrow>
      GetYouTubeService e w =
        (Inl ''not authenticated with Google; please visit /oauth/authorize'', w)) \<and>
   (fst (IsAuthenticated w) \<longleftrightarrow> token w \<noteq> None)"
  by (simp add: GetYouTubeService_def IsAuthenticated_def GetToken_def new_Token_def Let_def
      split: option.splits prod.splits)

text \<open>Witness for C3: the empty store.\<close>

theorem GetYouTubeService_not_authenticated_witness:
  "token world_empty = None \<and>
   GetYouTubeService env_ok world_empty =
     (Inl ''not authenticated with Google; please visit /oauth/authorize'', world_empty) \<and>
   \<not> fst (IsAuthenticated world_empty)"
  using GetYouTubeService_not_authenticated [of world_empty env_ok]
  by (simp add: world_empty_def)

text \<open>
  Claim C4 says that a client is returned whenever a credential is present and the token
  source yields a token. With a stored credential and a token source that yields
  \<open>token_b\<close>, a failing \<^verbatim>\<open>youtube.NewService\<close> makes \<^verbatim>\<open>GetYouTubeService\<close> return an
  error and no client.
\<close>

theorem GetYouTubeService_client_can_fail:
  "token world_a = Some 0 \<and> token_source_Token env_no_client = Inr token_b \<and>
   fst (GetYouTubeService env_no_client world_a) =
     Inl ''failed to create YouTube service: no transport''"
  by (simp add: GetYouTubeService_def GetToken_def new_Token_def SetToken_def Let_def
      world_a_def env_no_client_def env_ok_def token_a_def token_b_def)

text \<open>
  Claim C4, amended. When \<^verbatim>\<open>GetYouTubeService\<close> reads a present credential and the token
  source yields a token, the store is overwritten exactly when the new access token
  differs from the one just read: then the store holds the new token and the write is
  logged after the token-source call; otherwise the stored pointer and credential are
  untouched and only the token-source call is logged. If \<^verbatim>\<open>youtube.NewService\<close>
  succeeds, a client holding the yielded token is returned; if it fails, its wrapped error
  is returned, after the store update.
\<close>

theorem GetYouTubeService_overwrites_iff_access_token_differs:
  assumes "token w = Some p" and "p < next_free w" and "token_source_Token e = Inr tok"
  shows "(let (r, w') = GetYouTubeService e w
          in (AccessToken tok \<noteq> AccessToken (heap w p) \<longrightarrow>
                stored w' = Some tok \<and>
                effects w' = effects w @ [TokenSourceToken (next_free w), StoreWrite (token w')]) \<and>
             (AccessToken tok = AccessToken (heap w p) \<longrightarrow>
                token w' = token w \<and> stored w' = stored w \<and>
                effects w' = effects w @ [TokenSourceToken (next_free w)]) \<and>
             (youtube_NewService e = None \<longrightarrow> (\<exists>q. r = Inr (Service q) \<and> heap w' q = tok)) \<and>
             (\<forall>err. youtube_NewService e = Some err \<longrightarrow>
                r = Inl (''failed to create YouTube service: '' @ err)))"
  using assms
  by (auto simp: GetYouTubeService_def GetToken_def new_Token_def SetToken_def stored_def
      deref_def Let_def split: option.splits prod.splits)

text \<open>Witness for C4: the store holds \<open>token_a\<close> and the token source yields \<open>token_b\<close>.\<close>

theorem GetYouTubeService_overwrites_iff_access_token_differs_witness:
  "token world_a = Some 0 \<and> 0 < next_free world_a \<and> token_source_Token env_ok = Inr token_b \<and>
   stored (snd (GetYouTubeService env_ok world_a)) = Some token_b \<and>
   effects (snd (GetYouTubeService env_ok world_a)) = [TokenSourceToken 1, StoreWrite (Some 2)] \<and>
   fst (GetYouTubeService env_ok world_a) = Inr (Service 2)"
proof -
  have h1: "token world_a = Some 0" and h2: "0 < next_free world_a"
    and h3: "token_source_Token env_ok = Inr token_b"
    by (simp_all add: world_a_def env_ok_def)
  have v: "fst (GetYouTubeService env_ok world_a) = Inr (Service 2)"
    "token (snd (GetYouTubeService env_ok world_a)) = Some 2"
    by (simp_all add: GetYouTubeService_def GetToken_def new_Token_def SetToken_def Let_def
        world_a_def env_ok_def token_a_def token_b_def)
  from GetYouTubeService_overwrites_iff_access_token_differs [OF h1 h2 h3] h1 h2 h3 v
  show ?thesis
    by (simp add: world_a_def token_a_def token_b_def split: prod.splits)
qed

lemma TokenRefresher_ticks_then_Done:
  "TokenRefresher (map ticker_C ks @ ctx_Done # rest) w =
     (True, foldl (\<lambda>w k. refresher_tick k w) w ks)"
  by (induction ks arbitrary: w) simp_all

text \<open>
  Claim C5, evaluated on the code. In a tick of the background refresher, with no stored
  credential nothing happens. With a stored credential that is not valid, a refresh
  request is sent (unless there is no refresh token); when the refresh fails the store is
  set to nil, so \<^verbatim>\<open>IsAuthenticated\<close> is false, and when it succeeds the new credential
  is stored. With a stored credential that is still valid but expires within the next
  30 minutes, the token source is called and no refresh request is sent: the store is
  written with the copy of the credential it already held. A valid credential further
  from its expiry is left alone. A loop that receives the ticks \<open>ks\<close> and then the
  cancellation has run this body once for each tick, in order, and returns.
\<close>

theorem refresher_tick_exchange_only_when_invalid:
  "(token w = None \<longrightarrow> refresher_tick k w = w) \<and>
   (\<forall>p. token w = Some p \<longrightarrow>
      (let w' = refresher_tick k w; c = next_free w
       in if \<not> Valid k (heap w p)
          then if RefreshToken (heap w p) = []
               then effects w' = effects w @ [TokenSourceToken c, StoreWrite None] \<and>
                    token w' = None
               else effects w' =
                      effects w @ [TokenSourceToken c, RefreshExchange (RefreshToken (heap w p)),
                                   StoreWrite (token w')] \<and>
                    (case provider_refresh k of
                       Inl err \<Rightarrow> token w' = None \<and> \<not> fst (IsAuthenticated w')
                     | Inr tok \<Rightarrow> stored w' = Some tok \<and> fst (IsAuthenticated w'))
          else if Expiry (heap w p) < time_Now k + 30 * Minute
               then effects w' = effects w @ [TokenSourceToken c, StoreWrite (Some c)] \<and>
                    stored w' = stored w
               else token w' = token w \<and> effects w' = effects w)) \<and>
   TokenRefresher (map ticker_C ks @ ctx_Done # rest) w =
     (True, foldl (\<lambda>w k. refresher_tick k w) w ks)"
proof -
  have 1: "token w = None \<longrightarrow> refresher_tick k w = w"
    by (simp add: refresher_tick_def GetToken_def)
  have 2: "\<forall>p. token w = Some p \<longrightarrow>
      (let w' = refresher_tick k w; c = next_free w
       in if \<not> Valid k (heap w p)
          then if RefreshToken (heap w p) = []
               then effects w' = effects w @ [TokenSourceToken c, StoreWrite None] \<and>
                    token w' = None
               else effects w' =
                      effects w @ [TokenSourceToken c, RefreshExchange (RefreshToken (heap w p)),
                                   StoreWrite (token w')] \<and>
                    (case provider_refresh k of
                       Inl err \<Rightarrow> token w' = None \<and> \<not> fst (IsAuthenticated w')
                     | Inr tok \<Rightarrow> stored w' = Some tok \<and> fst (IsAuthenticated w'))
          else if Expiry (heap w p) < time_Now k + 30 * Minute
               then effects w' = effects w @ [TokenSourceToken c, StoreWrite (Some c)] \<and>
                    stored w' = stored w
               else token w' = token w \<and> effects w' = effects w)"
    by (auto simp: refresher_tick_def TokenSource_Token_def GetToken_def new_Token_def
        SetToken_def stored_def deref_def IsAuthenticated_def Let_def
        split: option.splits prod.splits sum.splits)
  from 1 2 TokenRefresher_ticks_then_Done show ?thesis
    by blast
qed

text \<open>
  Instances for C5. At minute 1000 the stored token has 20 minutes left: the tick calls
  the token source, no refresh request is logged, and the store holds the same
  credential as before. At minute 2000 the token has expired and the provider refuses:
  the request is logged and the store is cleared.
\<close>

theorem refresher_tick_exchange_only_when_invalid_witness:
  "token world_soon = Some 0 \<and>
   Valid tick_20_minutes_left (heap world_soon 0) \<and>
   Expiry (heap world_soon 0) < time_Now tick_20_minutes_left + 30 * Minute \<and>
   effects (refresher_tick tick_20_minutes_left world_soon) =
     [TokenSourceToken 1, StoreWrite (Some 1)] \<and>
   stored (refresher_tick tick_20_minutes_left world_soon) = Some token_soon \<and>
   \<not> Valid tick_refused (heap world_soon 0) \<and>
   effects (refresher_tick tick_refused world_soon) =
     [TokenSourceToken 1, RefreshExchange ''1//r'', StoreWrite None] \<and>
   token (refresher_tick tick_refused world_soon) = None"
proof -
  have h: "token world_soon = Some 0" "heap world_soon 0 = token_soon"
    "stored world_soon = Some token_soon" "next_free world_soon = 1" "effects world_soon = []"
    by (simp_all add: world_soon_def stored_def deref_def)
  have v: "Valid tick_20_minutes_left token_soon" "\<not> Valid tick_refused token_soon"
    "Expiry token_soon < time_Now tick_20_minutes_left + 30 * Minute"
    "RefreshToken token_soon = ''1//r''" "provider_refresh tick_refused = Inl ''invalid_grant''"
    by (simp_all add: tick_20_minutes_left_def tick_refused_def Valid_at_def token_soon_def
        Minute_def)
  from refresher_tick_exchange_only_when_invalid [of world_soon tick_20_minutes_left]
    refresher_tick_exchange_only_when_invalid [of world_soon tick_refused] h v
  show ?thesis
    by (simp add: Let_def)
qed

section \<open>Properties of the MCP handler\<close>

lemma tool_handlers_no_Error:
  "Error (fst (handleGetVideoMetadata e i p w)) = None"
  "Error (fst (handleSearchVideos e i p w)) = None"
  "Error (fst (handleGetVideoComments e i p w)) = None"
  by (simp_all add: handleGetVideoMetadata_def handleSearchVideos_def handleGetVideoComments_def
      sendToolError_def sendToolResult_def sendSuccessResponse_def Let_def
      split: prod.splits sum.splits)

lemma int64_default [simp]: "int64 e 20 = 20" "int64 e 10 = 10"
  by (simp_all add: int64_def)

text \<open>
  Claim C6 says that a tools/call request with a missing required argument is answered
  with a JSON-RPC error of code -32602. A \<^verbatim>\<open>get_video_metadata\<close> call without
  \<^verbatim>\<open>video_id\<close> is answered with a successful response that carries a tool-result error,
  and no error object.
\<close>

theorem missing_video_id_is_not_a_protocol_error:
  "fst (HandleMCP env_ok None request_1
          (Inr \<lparr>Name = ''get_video_metadata'', Arguments = no_arguments\<rparr>) world_a) =
     \<lparr>JSONRPC = ''2.0'', ID = JNumber 1,
      Result = Some (ToolsCall \<lparr>Content = [\<lparr>Type = ''text'', Text = ''video_id is required'',
                                             JSON = JNull\<rparr>],
                               IsError = True\<rparr>),
      Error = None\<rparr>"
  by (simp add: HandleMCP_def handleToolsCall_def handleGetVideoMetadata_def request_1_def
      no_arguments_def string_of_def sendToolError_def sendSuccessResponse_def)

text \<open>
  Claim C6, amended. For a tools/call request whose params decode: if the tool is
  \<^verbatim>\<open>get_video_metadata\<close> or \<^verbatim>\<open>get_video_comments\<close> and \<^verbatim>\<open>video_id\<close> is missing, empty or
  not a string, or the tool is \<^verbatim>\<open>search_videos\<close> and \<^verbatim>\<open>query\<close> is missing, empty or not a
  string, the response is the successful response carrying the tool-result error that
  names the argument, the world is unchanged, and the response has no error object. An
  error object with code -32602 is returned exactly when the params fail to decode.
\<close>

theorem missing_argument_is_tool_error:
  "(Name p = ''get_video_metadata'' \<or> Name p = ''get_video_comments'' \<longrightarrow>
      (\<forall>s. Arguments p ''video_id'' = Some (JString s) \<longrightarrow> s = []) \<longrightarrow>
      handleToolsCall e req (Inr p) w = (sendToolError (req_ID req) ''video_id is required'', w)) \<and>
   (Name p = ''search_videos'' \<longrightarrow>
      (\<forall>s. Arguments p ''query'' = Some (JString s) \<longrightarrow> s = []) \<longrightarrow>
      handleToolsCall e req (Inr p) w = (sendToolError (req_ID req) ''query is required'', w)) \<and>
   Error (sendToolError (req_ID req) message) = None \<and>
   ((\<exists>err. Error (fst (handleToolsCall e req d w)) = Some err \<and> Code err = - 32602)
      \<longleftrightarrow> (\<exists>msg. d = Inl msg))"
proof -
  have sv: "(\<forall>s. v = Some (JString s) \<longrightarrow> s = []) \<Longrightarrow> string_of v = []" for v
    by (auto simp: string_of_def split: option.splits json.splits)
  have 1: "Name p = ''get_video_metadata'' \<or> Name p = ''get_video_comments'' \<longrightarrow>
      (\<forall>s. Arguments p ''video_id'' = Some (JString s) \<longrightarrow> s = []) \<longrightarrow>
      handleToolsCall e req (Inr p) w = (sendToolError (req_ID req) ''video_id is required'', w)"
    using sv [of "Arguments p ''video_id''"]
    by (auto simp: handleToolsCall_def handleGetVideoMetadata_def handleGetVideoComments_def)
  have 2: "Name p = ''search_videos'' \<longrightarrow>
      (\<forall>s. Arguments p ''query'' = Some (JString s) \<longrightarrow> s = []) \<longrightarrow>
      handleToolsCall e req (Inr p) w = (sendToolError (req_ID req) ''query is required'', w)"
    using sv [of "Arguments p ''query''"]
    by (auto simp: handleToolsCall_def handleSearchVideos_def)
  have 3: "Error (sendToolError (req_ID req) message) = None"
    by (simp add: sendToolError_def sendSuccessResponse_def)
  have 4: "(\<exists>err. Error (fst (handleToolsCall e req d w)) = Some err \<and> Code err = - 32602)
      \<longleftrightarrow> (\<exists>msg. d = Inl msg)"
  proof (cases d)
    case (Inl msg)
    then show ?thesis
      by (simp add: handleToolsCall_def sendErrorResponse_def)
  next
    case (Inr q)
    then show ?thesis
      by (simp add: handleToolsCall_def tool_handlers_no_Error sendErrorResponse_def)
  qed
  from 1 2 3 4 show ?thesis by blast
qed

text \<open>
  Witness for C6: \<^verbatim>\<open>get_video_comments\<close> without arguments, and params that do not
  decode.
\<close>

theorem missing_argument_is_tool_error_witness:
  "handleToolsCall env_ok request_1
     (Inr \<lparr>Name = ''get_video_comments'', Arguments = no_arguments\<rparr>) world_a =
     (sendToolError (JNumber 1) ''video_id is required'', world_a) \<and>
   (\<exists>err. Error (fst (handleToolsCall env_ok request_1 (Inl ''unexpected end of JSON input'')
                        world_a)) = Some err \<and> Code err = - 32602)"
  using missing_argument_is_tool_error
    [of "\<lparr>Name = ''get_video_comments'', Arguments = no_arguments\<rparr>" env_ok request_1 world_a
        _ "Inl ''unexpected end of JSON input''"]
  by (simp add: no_arguments_def request_1_def)

text \<open>
  Claim C7, evaluated on the code. The catalog that tools/list returns has the three
  tools \<^verbatim>\<open>get_video_metadata\<close>, \<^verbatim>\<open>search_videos\<close> and \<^verbatim>\<open>get_video_comments\<close>, and a
  tools/call request that names \<^verbatim>\<open>reply_to_comment\<close> or \<^verbatim>\<open>add_video_to_playlist\<close> is
  answered with the error -32601 "Unknown tool", without any effect.
\<close>

theorem tool_catalog_lacks_owner_tools:
  "map tool_Name tools = [''get_video_metadata'', ''search_videos'', ''get_video_comments''] \<and>
   fst (HandleMCP e None (req\<lparr>Method := ''tools/list''\<rparr>) d w) =
     sendSuccessResponse (req_ID req) (ToolsList tools) \<and>
   HandleMCP e None (req\<lparr>Method := ''tools/call''\<rparr>)
       (Inr \<lparr>Name = ''reply_to_comment'', Arguments = args\<rparr>) w =
     (sendErrorResponse (req_ID req) (- 32601) ''Unknown tool'' JNull, w) \<and>
   HandleMCP e None (req\<lparr>Method := ''tools/call''\<rparr>)
       (Inr \<lparr>Name = ''add_video_to_playlist'', Arguments = args\<rparr>) w =
     (sendErrorResponse (req_ID req) (- 32601) ''Unknown tool'' JNull, w)"
  by (simp add: tools_def HandleMCP_def handleToolsList_def handleToolsCall_def)

text \<open>Instance for C7: a well-formed \<^verbatim>\<open>reply_to_comment\<close> call.\<close>

theorem tool_catalog_lacks_owner_tools_witness:
  "HandleMCP env_ok None request_1
     (Inr \<lparr>Name = ''reply_to_comment'', Arguments = reply_arguments\<rparr>) world_a =
     (\<lparr>JSONRPC = ''2.0'', ID = JNumber 1, Result = None,
       Error = Some \<lparr>Code = - 32601, Message = ''Unknown tool'', Data = JNull\<rparr>\<rparr>, world_a)"
  using tool_catalog_lacks_owner_tools [of env_ok request_1 _ world_a reply_arguments]
  by (simp add: request_1_def sendErrorResponse_def)

text \<open>
  Claim C8. When the \<^verbatim>\<open>query\<close> argument of \<^verbatim>\<open>search_videos\<close> is absent, the empty string,
  or not a string, the handler answers with the successful response whose result has
  \<^verbatim>\<open>isError\<close> true and one text item, and the world is unchanged: no effect is logged, so
  the YouTube service is not called. A tools/call request naming \<^verbatim>\<open>search_videos\<close> reaches
  this handler.
\<close>

theorem handleSearchVideos_query_required:
  assumes "Arguments params ''query'' = None \<or> Arguments params ''query'' = Some (JString []) \<or>
           (\<forall>s. Arguments params ''query'' \<noteq> Some (JString s))"
  shows "handleSearchVideos e id' params w =
           (\<lparr>JSONRPC = ''2.0'', ID = id',
             Result = Some (ToolsCall \<lparr>Content = [\<lparr>Type = ''text'', Text = ''query is required'',
                                                    JSON = JNull\<rparr>],
                                      IsError = True\<rparr>),
             Error = None\<rparr>, w) \<and>
         effects (snd (handleSearchVideos e id' params w)) = effects w \<and>
         (Name params = ''search_videos'' \<longrightarrow>
            handleToolsCall e req (Inr params) w = handleSearchVideos e (req_ID req) params w)"
proof -
  have "string_of (Arguments params ''query'') = []"
    using assms by (auto simp: string_of_def split: option.splits json.splits)
  then show ?thesis
    by (simp add: handleSearchVideos_def handleToolsCall_def sendToolError_def
        sendSuccessResponse_def)
qed

text \<open>Witness for C8: a \<^verbatim>\<open>query\<close> that is the number 5.\<close>

theorem handleSearchVideos_query_required_witness:
  "(\<forall>s. numeric_query ''query'' \<noteq> Some (JString s)) \<and>
   handleToolsCall env_ok request_1
     (Inr \<lparr>Name = ''search_videos'', Arguments = numeric_query\<rparr>) world_a =
     (\<lparr>JSONRPC = ''2.0'', ID = JNumber 1,
       Result = Some (ToolsCall \<lparr>Content = [\<lparr>Type = ''text'', Text = ''query is required'',
                                              JSON = JNull\<rparr>],
                                IsError = True\<rparr>),
       Error = None\<rparr>, world_a)"
proof -
  have h: "\<forall>s. numeric_query ''query'' \<noteq> Some (JString s)"
    by (simp add: numeric_query_def)
  from handleSearchVideos_query_required
         [of "\<lparr>Name = ''search_videos'', Arguments = numeric_query\<rparr>" env_ok "JNumber 1" world_a
             request_1] h
  show ?thesis
    by (simp add: request_1_def)
qed

text \<open>
  Claim C9. In \<^verbatim>\<open>get_video_comments\<close> with a usable \<^verbatim>\<open>video_id\<close>, the service is called
  with a sort order \<open>s\<close> and a limit \<open>l\<close> that are fixed independently of each other: \<open>s\<close> is
  \<open>''top''\<close> when \<^verbatim>\<open>sort_by\<close> is omitted, empty or not a string, and the given string
  otherwise; \<open>l\<close> is 20 when \<^verbatim>\<open>limit\<close> is absent, not a number or zero, and the given number
  converted to \<^verbatim>\<open>int64\<close> otherwise. In \<^verbatim>\<open>search_videos\<close> with a usable \<^verbatim>\<open>query\<close> the same
  rule for \<^verbatim>\<open>limit\<close> holds with 10 for 20. In both handlers a \<^verbatim>\<open>limit\<close> of zero gives the
  same response and the same world as no \<^verbatim>\<open>limit\<close> at all.
\<close>

theorem limit_and_sort_by_defaults:
  "(Arguments params ''video_id'' = Some (JString v) \<and> v \<noteq> [] \<and>
    ((Arguments params ''sort_by'' = None \<or> Arguments params ''sort_by'' = Some (JString []) \<or>
      (\<forall>s'. Arguments params ''sort_by'' \<noteq> Some (JString s'))) \<and> s = ''top'' \<or>
     Arguments params ''sort_by'' = Some (JString s) \<and> s \<noteq> []) \<and>
    ((Arguments params ''limit'' = None \<or> (\<forall>x. Arguments params ''limit'' \<noteq> Some (JNumber x)) \<or>
      Arguments params ''limit'' = Some (JNumber 0)) \<and> l = 20 \<or>
     (\<exists>x. Arguments params ''limit'' = Some (JNumber x) \<and> x \<noteq> 0 \<and> l = int64 e x)) \<longrightarrow>
    handleGetVideoComments e id' params w =
      (case GetVideoComments e v s l w of
         (Inl err, w') \<Rightarrow> (sendToolError id' (''API Error: '' @ err), w')
       | (Inr comments, w') \<Rightarrow> (sendToolResult id' comments, w'))) \<and>
   (Arguments params ''query'' = Some (JString q) \<and> q \<noteq> [] \<and>
    ((Arguments params ''limit'' = None \<or> (\<forall>x. Arguments params ''limit'' \<noteq> Some (JNumber x)) \<or>
      Arguments params ''limit'' = Some (JNumber 0)) \<and> m = 10 \<or>
     (\<exists>x. Arguments params ''limit'' = Some (JNumber x) \<and> x \<noteq> 0 \<and> m = int64 e x)) \<longrightarrow>
    handleSearchVideos e id' params w =
      (case SearchVideos e q (string_of (Arguments params ''channel_id'')) m w of
         (Inl err, w') \<Rightarrow> (sendToolError id' (''API Error: '' @ err), w')
       | (Inr results, w') \<Rightarrow> (sendToolResult id' results, w'))) \<and>
   handleGetVideoComments e id'
       (params\<lparr>Arguments := (Arguments params)(''limit'' \<mapsto> JNumber 0)\<rparr>) w =
     handleGetVideoComments e id'
       (params\<lparr>Arguments := (Arguments params)(''limit'' := None)\<rparr>) w \<and>
   handleSearchVideos e id'
       (params\<lparr>Arguments := (Arguments params)(''limit'' \<mapsto> JNumber 0)\<rparr>) w =
     handleSearchVideos e id'
       (params\<lparr>Arguments := (Arguments params)(''limit'' := None)\<rparr>) w"
proof -
  have sort_eq: "(if string_of (Arguments params ''sort_by'') = [] then ''top''
                  else string_of (Arguments params ''sort_by'')) = s"
    if "(Arguments params ''sort_by'' = None \<or> Arguments params ''sort_by'' = Some (JString []) \<or>
         (\<forall>s'. Arguments params ''sort_by'' \<noteq> Some (JString s'))) \<and> s = ''top'' \<or>
        Arguments params ''sort_by'' = Some (JString s) \<and> s \<noteq> []"
    using that by (auto simp: string_of_def split: option.splits json.splits)
  have lim_eq: "int64 e (if \<not> ok \<or> x = 0 then d else x) = n"
    if "float64_of (Arguments params ''limit'') = (x, ok)"
      and "(Arguments params ''limit'' = None \<or>
            (\<forall>x. Arguments params ''limit'' \<noteq> Some (JNumber x)) \<or>
            Arguments params ''limit'' = Some (JNumber 0)) \<and> n = int64 e d \<or>
           (\<exists>x. Arguments params ''limit'' = Some (JNumber x) \<and> x \<noteq> 0 \<and> n = int64 e x)"
    for d n x ok
    using that by (auto simp: float64_of_def split: option.splits json.splits)
  have 1: "Arguments params ''video_id'' = Some (JString v) \<and> v \<noteq> [] \<and>
    ((Arguments params ''sort_by'' = None \<or> Arguments params ''sort_by'' = Some (JString []) \<or>
      (\<forall>s'. Arguments params ''sort_by'' \<noteq> Some (JString s'))) \<and> s = ''top'' \<or>
     Arguments params ''sort_by'' = Some (JString s) \<and> s \<noteq> []) \<and>
    ((Arguments params ''limit'' = None \<or> (\<forall>x. Arguments params ''limit'' \<noteq> Some (JNumber x)) \<or>
      Arguments params ''limit'' = Some (JNumber 0)) \<and> l = 20 \<or>
     (\<exists>x. Arguments params ''limit'' = Some (JNumber x) \<and> x \<noteq> 0 \<and> l = int64 e x)) \<longrightarrow>
    handleGetVideoComments e id' params w =
      (case GetVideoComments e v s l w of
         (Inl err, w') \<Rightarrow> (sendToolError id' (''API Error: '' @ err), w')
       | (Inr comments, w') \<Rightarrow> (sendToolResult id' comments, w'))"
  proof (intro impI, elim conjE)
    assume v: "Arguments params ''video_id'' = Some (JString v)" "v \<noteq> []"
      and s: "(Arguments params ''sort_by'' = None \<or>
               Arguments params ''sort_by'' = Some (JString []) \<or>
               (\<forall>s'. Arguments params ''sort_by'' \<noteq> Some (JString s'))) \<and> s = ''top'' \<or>
              Arguments params ''sort_by'' = Some (JString s) \<and> s \<noteq> []"
      and l: "(Arguments params ''limit'' = None \<or>
               (\<forall>x. Arguments params ''limit'' \<noteq> Some (JNumber x)) \<or>
               Arguments params ''limit'' = Some (JNumber 0)) \<and> l = 20 \<or>
              (\<exists>x. Arguments params ''limit'' = Some (JNumber x) \<and> x \<noteq> 0 \<and> l = int64 e x)"
    obtain x ok where fl: "float64_of (Arguments params ''limit'') = (x, ok)"
      by (cases "float64_of (Arguments params ''limit'')")
    from l have l': "int64 e (if \<not> ok \<or> x = 0 then 20 else x) = l"
      by (intro lim_eq [OF fl]) auto
    from v have vid: "string_of (Arguments params ''video_id'') = v"
      by (simp add: string_of_def)
    show "handleGetVideoComments e id' params w =
      (case GetVideoComments e v s l w of
         (Inl err, w') \<Rightarrow> (sendToolError id' (''API Error: '' @ err), w')
       | (Inr comments, w') \<Rightarrow> (sendToolResult id' comments, w'))"
      unfolding handleGetVideoComments_def Let_def vid
      using v(2) sort_eq [OF s] l' by (simp add: fl)
  qed
  have 2: "Arguments params ''query'' = Some (JString q) \<and> q \<noteq> [] \<and>
    ((Arguments params ''limit'' = None \<or> (\<forall>x. Arguments params ''limit'' \<noteq> Some (JNumber x)) \<or>
      Arguments params ''limit'' = Some (JNumber 0)) \<and> m = 10 \<or>
     (\<exists>x. Arguments params ''limit'' = Some (JNumber x) \<and> x \<noteq> 0 \<and> m = int64 e x)) \<longrightarrow>
    handleSearchVideos e id' params w =
      (case SearchVideos e q (string_of (Arguments params ''channel_id'')) m w of
         (Inl err, w') \<Rightarrow> (sendToolError id' (''API Error: '' @ err), w')
       | (Inr results, w') \<Rightarrow> (sendToolResult id' results, w'))"
  proof (intro impI, elim conjE)
    assume q: "Arguments params ''query'' = Some (JString q)" "q \<noteq> []"
      and l: "(Arguments params ''limit'' = None \<or>
               (\<forall>x. Arguments params ''limit'' \<noteq> Some (JNumber x)) \<or>
               Arguments params ''limit'' = Some (JNumber 0)) \<and> m = 10 \<or>
              (\<exists>x. Arguments params ''limit'' = Some (JNumber x) \<and> x \<noteq> 0 \<and> m = int64 e x)"
    obtain x ok where fl: "float64_of (Arguments params ''limit'') = (x, ok)"
      by (cases "float64_of (Arguments params ''limit'')")
    from l have l': "int64 e (if \<not> ok \<or> x = 0 then 10 else x) = m"
      by (intro lim_eq [OF fl]) auto
    from q have qs: "string_of (Arguments params ''query'') = q"
      by (simp add: string_of_def)
    show "handleSearchVideos e id' params w =
      (case SearchVideos e q (string_of (Arguments params ''channel_id'')) m w of
         (Inl err, w') \<Rightarrow> (sendToolError id' (''API Error: '' @ err), w')
       | (Inr results, w') \<Rightarrow> (sendToolResult id' results, w'))"
      unfolding handleSearchVideos_def Let_def qs
      using q(2) l' by (simp add: fl)
  qed
  have 3: "handleGetVideoComments e id'
       (params\<lparr>Arguments := (Arguments params)(''limit'' \<mapsto> JNumber 0)\<rparr>) w =
     handleGetVideoComments e id'
       (params\<lparr>Arguments := (Arguments params)(''limit'' := None)\<rparr>) w"
    by (simp add: handleGetVideoComments_def float64_of_def Let_def)
  have 4: "handleSearchVideos e id'
       (params\<lparr>Arguments := (Arguments params)(''limit'' \<mapsto> JNumber 0)\<rparr>) w =
     handleSearchVideos e id'
       (params\<lparr>Arguments := (Arguments params)(''limit'' := None)\<rparr>) w"
    by (simp add: handleSearchVideos_def float64_of_def Let_def)
  from 1 2 3 4 show ?thesis by blast
qed

text \<open>
  Witness for C9, on an authenticated store. With a \<^verbatim>\<open>limit\<close> of zero and no \<^verbatim>\<open>sort_by\<close>
  the request sent to the API orders by \<open>''top''\<close> and asks for 20 results; with a
  \<^verbatim>\<open>limit\<close> of 5 and no \<^verbatim>\<open>sort_by\<close> it orders by \<open>''top''\<close> and asks for 5; with
  \<^verbatim>\<open>sort_by\<close> \<open>''time''\<close> and no \<^verbatim>\<open>limit\<close> it orders by \<open>''time''\<close> and asks for 20.
\<close>

theorem limit_and_sort_by_defaults_witness:
  "last (effects (snd (handleGetVideoComments env_ok (JNumber 1)
     \<lparr>Name = ''get_video_comments'', Arguments = comments_limit_zero\<rparr> world_a))) =
     ApiDo (Service 2) (CommentThreadsList [''snippet'', ''replies''] ''kYB8IZa5AuE'' ''top'' 20) \<and>
   last (effects (snd (handleGetVideoComments env_ok (JNumber 1)
     \<lparr>Name = ''get_video_comments'', Arguments = comments_limit_five\<rparr> world_a))) =
     ApiDo (Service 2) (CommentThreadsList [''snippet'', ''replies''] ''kYB8IZa5AuE'' ''top'' 5) \<and>
   last (effects (snd (handleGetVideoComments env_ok (JNumber 1)
     \<lparr>Name = ''get_video_comments'', Arguments = comments_sort_time\<rparr> world_a))) =
     ApiDo (Service 2) (CommentThreadsList [''snippet'', ''replies''] ''kYB8IZa5AuE'' ''time'' 20)"
proof -
  have c: "last (effects (snd (case GetVideoComments env_ok ''kYB8IZa5AuE'' s l world_a of
        (Inl err, w') \<Rightarrow> (sendToolError (JNumber 1) (''API Error: '' @ err), w')
      | (Inr comments, w') \<Rightarrow> (sendToolResult (JNumber 1) comments, w')))) =
     ApiDo (Service 2) (CommentThreadsList [''snippet'', ''replies''] ''kYB8IZa5AuE'' s l)" for s l
    by (simp add: GetVideoComments_def GetYouTubeService_def GetToken_def new_Token_def
        SetToken_def Let_def world_a_def env_ok_def token_a_def token_b_def)
  have five: "int64 env_ok 5 = 5"
    by (simp add: int64_def)
  have z: "handleGetVideoComments env_ok (JNumber 1)
             \<lparr>Name = ''get_video_comments'', Arguments = comments_limit_zero\<rparr> world_a =
           (case GetVideoComments env_ok ''kYB8IZa5AuE'' ''top'' 20 world_a of
              (Inl err, w') \<Rightarrow> (sendToolError (JNumber 1) (''API Error: '' @ err), w')
            | (Inr comments, w') \<Rightarrow> (sendToolResult (JNumber 1) comments, w'))"
    using limit_and_sort_by_defaults
         [of "\<lparr>Name = ''get_video_comments'', Arguments = comments_limit_zero\<rparr>"
             "''kYB8IZa5AuE''" "''top''" 20 env_ok "JNumber 1" world_a]
    by (simp add: comments_limit_zero_def)
  have f: "handleGetVideoComments env_ok (JNumber 1)
             \<lparr>Name = ''get_video_comments'', Arguments = comments_limit_five\<rparr> world_a =
           (case GetVideoComments env_ok ''kYB8IZa5AuE'' ''top'' 5 world_a of
              (Inl err, w') \<Rightarrow> (sendToolError (JNumber 1) (''API Error: '' @ err), w')
            | (Inr comments, w') \<Rightarrow> (sendToolResult (JNumber 1) comments, w'))"
    using limit_and_sort_by_defaults
         [of "\<lparr>Name = ''get_video_comments'', Arguments = comments_limit_five\<rparr>"
             "''kYB8IZa5AuE''" "''top''" 5 env_ok "JNumber 1" world_a] five
    by (simp add: comments_limit_five_def)
  have t: "handleGetVideoComments env_ok (JNumber 1)
             \<lparr>Name = ''get_video_comments'', Arguments = comments_sort_time\<rparr> world_a =
           (case GetVideoComments env_ok ''kYB8IZa5AuE'' ''time'' 20 world_a of
              (Inl err, w') \<Rightarrow> (sendToolError (JNumber 1) (''API Error: '' @ err), w')
            | (Inr comments, w') \<Rightarrow> (sendToolResult (JNumber 1) comments, w'))"
    using limit_and_sort_by_defaults
         [of "\<lparr>Name = ''get_video_comments'', Arguments = comments_sort_time\<rparr>"
             "''kYB8IZa5AuE''" "''time''" 20 env_ok "JNumber 1" world_a]
    by (simp add: comments_sort_time_def)
  show ?thesis
    unfolding z f t by (simp add: c)
qed

end
